theory Spec2Isabelle
  imports Main
begin

section \<open>Footer widgets of \<open>python/tui/textualize/footer.py\<close>\<close>

text \<open>
  The file defines four classes on top of the Textual toolkit: two applications
  (\<open>ContainerFooterApp\<close>, \<open>NoScrollFooterApp\<close>) and two containers
  (\<open>DynamicFooter\<close>, \<open>EnhancedFooter\<close>). The development has three layers:
  \<^item> the top level of the module, as a list of statements run against a name table;
  \<^item> the part of the toolkit the classes call (widgets, \<open>query_one\<close>,
    \<open>Label.update\<close>, markup, stylesheets, reactive attributes);
  \<^item> the classes themselves, method by method.
\<close>

subsection \<open>Errors\<close>

datatype py_error =
    NameError string
  | NoMatches
  | MarkupError
  | StylesheetParseError

subsection \<open>The top level of the module\<close>

text \<open>
  A module body is a sequence of statements run in order against the table of bound
  names. Three kinds of statement occur in the file:
  \<^item> \<open>from m import a, b\<close> binds \<open>a\<close> and \<open>b\<close>;
  \<^item> \<open>class C(B): body\<close> evaluates the base expressions, then runs the body
    (whose right-hand sides and annotations read names), then binds \<open>C\<close>;
  \<^item> \<open>if __name__ == "__main__": body\<close> runs the body when the module is the script.
  Reading a name that is not bound raises \<open>NameError\<close> and ends the run.
\<close>

datatype stmt =
    FromImport string "string list"
  | ClassDef string "string list" "string list"
  | IfMain "string list" "string list"

type_synonym namespace = "string list"

fun lookup_names :: "namespace \<Rightarrow> string list \<Rightarrow> py_error option" where
  "lookup_names ns [] = None"
| "lookup_names ns (n # rest) =
     (if n \<in> set ns then lookup_names ns rest else Some (NameError n))"

fun exec_stmt :: "string \<Rightarrow> namespace \<Rightarrow> stmt \<Rightarrow> namespace \<times> py_error option" where
  "exec_stmt nm ns (FromImport m names) = (ns @ names, None)"
| "exec_stmt nm ns (ClassDef c bases body_reads) =
     (case lookup_names ns bases of
        Some e \<Rightarrow> (ns, Some e)
      | None \<Rightarrow>
         (case lookup_names ns body_reads of
            Some e \<Rightarrow> (ns, Some e)
          | None \<Rightarrow> (ns @ [c], None)))"
| "exec_stmt nm ns (IfMain reads binds) =
     (if nm = ''__main__''
      then (case lookup_names ns reads of
              Some e \<Rightarrow> (ns, Some e)
            | None \<Rightarrow> (ns @ binds, None))
      else (ns, None))"

fun exec_module :: "string \<Rightarrow> namespace \<Rightarrow> stmt list \<Rightarrow> namespace \<times> py_error option" where
  "exec_module nm ns [] = (ns, None)"
| "exec_module nm ns (st # rest) =
     (case exec_stmt nm ns st of
        (ns', Some e) \<Rightarrow> (ns', Some e)
      | (ns', None) \<Rightarrow> exec_module nm ns' rest)"

text \<open>The names every module starts with that the file reads.\<close>

definition builtins :: namespace where
  "builtins = [''__name__'', ''str'']"

text \<open>
  The statements of \<open>footer.py\<close> in source order. For a class, the second list is what
  its body reads when it runs: \<open>reactive\<close> in \<open>status = reactive("Ready")\<close> and the
  annotations of the methods (\<open>ComposeResult\<close>, \<open>str\<close>; \<open>None\<close> is a keyword).
\<close>

definition footer_module :: "stmt list" where
  "footer_module =
     [FromImport ''textual.app'' [''App'', ''ComposeResult''],
      FromImport ''textual.widgets'' [''Footer'', ''Label'', ''Header''],
      FromImport ''textual.containers'' [''Horizontal''],
      FromImport ''textual.reactive'' [''reactive''],
      ClassDef ''ContainerFooterApp'' [''App''] [''ComposeResult''],
      ClassDef ''DynamicFooter'' [''Container''] [''reactive'', ''ComposeResult'', ''str''],
      ClassDef ''EnhancedFooter'' [''Container''] [''str'', ''ComposeResult''],
      ClassDef ''NoScrollFooterApp'' [''App''] [''reactive'', ''ComposeResult''],
      IfMain [''NoScrollFooterApp''] [''app'']]"

definition load_footer :: "string \<Rightarrow> namespace \<times> py_error option" where
  "load_footer nm = exec_module nm builtins footer_module"

subsection \<open>Markup\<close>

text \<open>
  The toolkit is not part of the repository; the part the classes call is modelled
  after its behaviour. The classes of the file are written as if \<open>Container\<close> had been
  imported.

  A \<open>Label\<close> takes its text as markup. A tag is written in square brackets: \<open>[b]\<close>
  opens a style, \<open>[/b]\<close> closes it and \<open>[/]\<close> closes the last one opened. Tags are not
  part of the text shown; a closing tag that has nothing to close raises
  \<open>MarkupError\<close>. A bracket that does not start a tag is shown as it is. The scan keeps
  the open tags and, inside a bracket, the characters read so far (latest first).
  What is proved below for every value is proved for values without a bracket, which
  are shown as they are; markup enters only through the closing tag \<open>[/b]\<close>.
\<close>

definition tag_start :: "char \<Rightarrow> bool" where
  "tag_start c = (c \<in> set ''abcdefghijklmnopqrstuvwxyz#@/'')"

fun emit :: "string \<Rightarrow> py_error + string \<Rightarrow> py_error + string" where
  "emit pre (Inl e) = Inl e"
| "emit pre (Inr t) = Inr (pre @ t)"

fun scan_markup :: "string list \<Rightarrow> string option \<Rightarrow> string \<Rightarrow> py_error + string" where
  "scan_markup opened None [] = Inr []"
| "scan_markup opened (Some tag) [] = Inr (CHR ''['' # rev tag)"
| "scan_markup opened None (c # cs) =
     (if c = CHR ''['' then scan_markup opened (Some []) cs
      else emit [c] (scan_markup opened None cs))"
| "scan_markup opened (Some tag) (c # cs) =
     (if c = CHR '']'' then
        (case rev tag of
           [] \<Rightarrow> emit ''[]'' (scan_markup opened None cs)
         | t # name \<Rightarrow>
             if \<not> tag_start t then emit (CHR ''['' # t # name @ '']'') (scan_markup opened None cs)
             else if t \<noteq> CHR ''/'' then scan_markup ((t # name) # opened) None cs
             else if name = [] then
               (case opened of
                  [] \<Rightarrow> Inl MarkupError
                | _ # outer \<Rightarrow> scan_markup outer None cs)
             else if name \<in> set opened then scan_markup (remove1 name opened) None cs
             else Inl MarkupError)
      else scan_markup opened (Some (c # tag)) cs)"

definition render_markup :: "string \<Rightarrow> py_error + string" where
  "render_markup s = scan_markup [] None s"

subsection \<open>Widgets and the widget tree\<close>

text \<open>
  A widget has a class, an optional \<open>id\<close>, a list of CSS classes, the text it shows
  (used by \<open>Label\<close>), the number of refreshes it has requested, and its children.
\<close>

datatype widget_class = Footer | Label | Header | Horizontal

datatype widget =
  Widget (wclass: widget_class) (wid: "string option") (wclasses: "string list")
         (content: string) (refreshes: nat) (wchildren: "widget list")

text \<open>\<open>Footer(id=...)\<close>, \<open>Header()\<close>, \<open>with Horizontal(id=...): ...\<close> and
  \<open>Label(text, id=..., classes=...)\<close>, which reads its text as markup.\<close>

definition Footer_new :: "string option \<Rightarrow> widget" where
  "Footer_new ident = Widget Footer ident [] [] 0 []"

definition Header_new :: widget where
  "Header_new = Widget Header None [] [] 0 []"

definition Horizontal_new :: "string option \<Rightarrow> widget list \<Rightarrow> widget" where
  "Horizontal_new ident kids = Widget Horizontal ident [] [] 0 kids"

definition Label_new :: "string \<Rightarrow> string option \<Rightarrow> string list \<Rightarrow> py_error + widget" where
  "Label_new text ident classes =
     (case render_markup text of
        Inl e \<Rightarrow> Inl e
      | Inr shown \<Rightarrow> Inr (Widget Label ident classes shown 0 []))"

text \<open>\<open>Label.update(text)\<close> reads the text as markup, replaces what the label shows and
  requests one refresh of the label; when the markup is rejected nothing has changed.\<close>

definition Label_update :: "string \<Rightarrow> widget \<Rightarrow> py_error + widget" where
  "Label_update text w =
     (case render_markup text of
        Inl e \<Rightarrow> Inl e
      | Inr shown \<Rightarrow>
          Inr (Widget (wclass w) (wid w) (wclasses w) shown (Suc (refreshes w)) (wchildren w)))"

text \<open>
  A reference to a widget of the tree is its path: the child indices from the owner
  down. \<open>walk_children\<close> lists the descendants depth first, in document order.
\<close>

fun walk_children :: "nat list \<Rightarrow> nat \<Rightarrow> widget list \<Rightarrow> (nat list \<times> widget) list" where
  "walk_children p i [] = []"
| "walk_children p i (Widget c n cl t r kids # ws) =
     (p @ [i], Widget c n cl t r kids)
       # walk_children (p @ [i]) 0 kids @ walk_children p (Suc i) ws"

text \<open>The selectors the file uses: \<open>#ident\<close> and \<open>.class\<close>.\<close>

fun matches :: "string \<Rightarrow> widget \<Rightarrow> bool" where
  "matches [] w = False"
| "matches (c # name) w =
     (if c = CHR ''#'' then wid w = Some name
      else if c = CHR ''.'' then name \<in> set (wclasses w)
      else False)"

text \<open>
  \<open>query_one(selector, expect_type)\<close>: the first descendant of the expected class that
  matches the selector, with its reference; \<open>NoMatches\<close> when there is none.
\<close>

definition query_one ::
  "widget list \<Rightarrow> string \<Rightarrow> widget_class \<Rightarrow> py_error + (nat list \<times> widget)" where
  "query_one kids selector expect_type =
     (case filter (\<lambda>(p, w). matches selector w \<and> wclass w = expect_type)
             (walk_children [] 0 kids) of
        [] \<Rightarrow> Inl NoMatches
      | found # _ \<Rightarrow> Inr found)"

text \<open>Writing through a reference.\<close>

fun replace_at :: "nat list \<Rightarrow> widget \<Rightarrow> widget list \<Rightarrow> widget list" where
  "replace_at [] new ws = ws"
| "replace_at [i] new ws = (if i < length ws then ws[i := new] else ws)"
| "replace_at (i # p) new ws =
     (if i < length ws
      then ws[i := (case ws ! i of
                      Widget c n cl t r kids \<Rightarrow> Widget c n cl t r (replace_at p new kids))]
      else ws)"

text \<open>What a test observes: the text of the label a selector finds, and the number of
  refreshes the widgets of the tree have requested.\<close>

definition text_of :: "string \<Rightarrow> widget list \<Rightarrow> string option" where
  "text_of selector kids =
     (case query_one kids selector Label of
        Inl e \<Rightarrow> None
      | Inr (p, w) \<Rightarrow> Some (content w))"


subsection \<open>Stylesheets\<close>

text \<open>
  A stylesheet is a list of rules, each a selector with its declarations (property,
  value). The toolkit reads the stylesheet of an application when it starts, before
  anything is composed, and the \<open>DEFAULT_CSS\<close> of a widget before the widget is
  mounted; a declaration of a property it does not know stops it with
  \<open>StylesheetParseError\<close>. Only the property names are checked here.
\<close>

type_synonym css_rule = "string \<times> (string \<times> string) list"

definition css_properties :: "string list" where
  "css_properties =
     [''align'', ''align-horizontal'', ''align-vertical'', ''background'',
      ''background-tint'', ''border'', ''border-top'', ''border-right'', ''border-bottom'',
      ''border-left'', ''border-title-align'', ''border-subtitle-align'', ''box-sizing'',
      ''color'', ''column-span'', ''content-align'', ''content-align-horizontal'',
      ''content-align-vertical'', ''display'', ''dock'', ''grid-columns'', ''grid-gutter'',
      ''grid-rows'', ''grid-size'', ''hatch'', ''height'', ''keyline'', ''layer'', ''layers'',
      ''layout'', ''margin'', ''margin-top'', ''margin-right'', ''margin-bottom'',
      ''margin-left'', ''max-height'', ''max-width'', ''min-height'', ''min-width'',
      ''offset'', ''offset-x'', ''offset-y'', ''opacity'', ''outline'', ''overflow'',
      ''overflow-x'', ''overflow-y'', ''overlay'', ''padding'', ''padding-top'',
      ''padding-right'', ''padding-bottom'', ''padding-left'', ''position'', ''row-span'',
      ''scrollbar-gutter'', ''scrollbar-size'', ''text-align'', ''text-opacity'',
      ''text-overflow'', ''text-style'', ''text-wrap'', ''tint'', ''visibility'', ''width'']"

definition check_stylesheet :: "css_rule list \<Rightarrow> py_error option" where
  "check_stylesheet rules =
     (if list_all (\<lambda>(selector, decls). list_all (\<lambda>(prop, val). prop \<in> set css_properties) decls)
           rules
      then None else Some StylesheetParseError)"

subsection \<open>Reactive attributes\<close>

text \<open>
  \<open>reactive(default)\<close> declares an attribute with the toolkit's defaults:
  \<open>repaint=True\<close> (the owner repaints itself after a change), \<open>init=True\<close> (call
  the watcher when the attribute is initialised) and \<open>always_update=False\<close> (react
  only when the assigned value differs from the stored one).
\<close>

record 'a reactive =
  default_value :: 'a
  repaint :: bool
  init :: bool
  always_update :: bool

definition reactive :: "'a \<Rightarrow> 'a reactive" where
  "reactive d = \<lparr>default_value = d, repaint = True, init = True, always_update = False\<rparr>"

text \<open>
  An object holds the value of the attribute once the attribute has been initialised
  (\<open>None\<close> before). Initialisation happens at the first access, read or write, or after
  mount when there was no access: the default is stored and then, with \<open>init\<close>, the
  method \<open>watch_<name>\<close> of the class, when it has one, is called with the default. An
  exception of the watcher leaves the stored value in place and reaches the caller.
\<close>

definition initialize_reactive ::
  "'a reactive \<Rightarrow> ('s \<Rightarrow> 'a option) \<Rightarrow> ('a \<Rightarrow> 's \<Rightarrow> 's) \<Rightarrow>
   ('a \<Rightarrow> 's \<Rightarrow> 's \<times> py_error option) option \<Rightarrow> 's \<Rightarrow> 's \<times> py_error option" where
  "initialize_reactive r getv putv watcher obj =
     (case getv obj of
        Some v \<Rightarrow> (obj, None)
      | None \<Rightarrow>
          (if init r
           then (case watcher of
                   None \<Rightarrow> (putv (default_value r) obj, None)
                 | Some watch \<Rightarrow> watch (default_value r) (putv (default_value r) obj))
           else (putv (default_value r) obj, None)))"

text \<open>Reading the attribute: initialise, then return the stored value.\<close>

definition reactive_get ::
  "'a reactive \<Rightarrow> ('s \<Rightarrow> 'a option) \<Rightarrow> ('a \<Rightarrow> 's \<Rightarrow> 's) \<Rightarrow>
   ('a \<Rightarrow> 's \<Rightarrow> 's \<times> py_error option) option \<Rightarrow> 's \<Rightarrow> 's \<times> (py_error + 'a)" where
  "reactive_get r getv putv watcher obj =
     (case initialize_reactive r getv putv watcher obj of
        (obj', Some e) \<Rightarrow> (obj', Inl e)
      | (obj', None) \<Rightarrow>
          (case getv obj' of
             Some v \<Rightarrow> (obj', Inr v)
           | None \<Rightarrow> (obj', Inr (default_value r))))"

text \<open>
  Assignment: initialise, then compare. When the value changes (or \<open>always_update\<close>
  is set) the value is stored, then the watcher is called with the new value, and
  when the watcher has returned the owner requests a repaint of itself (\<open>refresh\<close>),
  if the attribute was declared with \<open>repaint\<close>.
\<close>

definition reactive_set ::
  "'a reactive \<Rightarrow> ('s \<Rightarrow> 'a option) \<Rightarrow> ('a \<Rightarrow> 's \<Rightarrow> 's) \<Rightarrow>
   ('a \<Rightarrow> 's \<Rightarrow> 's \<times> py_error option) option \<Rightarrow> ('s \<Rightarrow> 's) \<Rightarrow>
   'a \<Rightarrow> 's \<Rightarrow> 's \<times> py_error option" where
  "reactive_set r getv putv watcher refresh v obj =
     (case initialize_reactive r getv putv watcher obj of
        (obj', Some e) \<Rightarrow> (obj', Some e)
      | (obj', None) \<Rightarrow>
          (if always_update r \<or> getv obj' \<noteq> Some v
           then (case (case watcher of
                         None \<Rightarrow> (putv v obj', None)
                       | Some watch \<Rightarrow> watch v (putv v obj')) of
                   (obj'', Some e) \<Rightarrow> (obj'', Some e)
                 | (obj'', None) \<Rightarrow> (if repaint r then refresh obj'' else obj'', None))
           else (obj', None)))"

text \<open>Every node of the toolkit holds its children (before mount it has none) and
  the number of repaints it has requested for itself. A widget also knows whether it
  is mounted.\<close>

record dom_node =
  children :: "widget list"
  repaints :: nat

record widget_node = dom_node +
  is_mounted :: bool

subsection \<open>\<open>DynamicFooter\<close>\<close>

record DynamicFooter = widget_node +
  status :: "string option"

text \<open>\<open>status = reactive("Ready")\<close>\<close>

definition DynamicFooter_status :: "string reactive" where
  "DynamicFooter_status = reactive ''Ready''"

definition DynamicFooter_new :: DynamicFooter where
  "DynamicFooter_new = \<lparr>children = [], repaints = 0, is_mounted = False, DynamicFooter.status = None\<rparr>"

definition DynamicFooter_watch_status ::
  "string \<Rightarrow> DynamicFooter \<Rightarrow> DynamicFooter \<times> py_error option" where
  "DynamicFooter_watch_status st self =
     (case query_one (children self) ''#status'' Label of
        Inl e \<Rightarrow> (self, Some e)
      | Inr (ref, status_label) \<Rightarrow>
          (case Label_update st status_label of
             Inl e \<Rightarrow> (self, Some e)
           | Inr updated \<Rightarrow>
               (self\<lparr>children := replace_at ref updated (children self)\<rparr>, None)))"

text \<open>\<open>compose\<close> yields \<open>Footer()\<close> and then reads \<open>self.status\<close> for the label; the read
  is an access of the reactive attribute.\<close>

definition DynamicFooter_compose ::
  "DynamicFooter \<Rightarrow> DynamicFooter \<times> (py_error + widget list)" where
  "DynamicFooter_compose self =
     (case reactive_get DynamicFooter_status DynamicFooter.status
             (\<lambda>x obj. obj\<lparr>DynamicFooter.status := Some x\<rparr>)
             (Some DynamicFooter_watch_status) self of
        (obj, Inl e) \<Rightarrow> (obj, Inl e)
      | (obj, Inr st) \<Rightarrow>
          (case Label_new st (Some ''status'') [] of
             Inl e \<Rightarrow> (obj, Inl e)
           | Inr label \<Rightarrow> (obj, Inr [Footer_new None, label])))"

text \<open>\<open>self.status = v\<close>, the setter of the component.\<close>

definition DynamicFooter_set_status ::
  "string \<Rightarrow> DynamicFooter \<Rightarrow> DynamicFooter \<times> py_error option" where
  "DynamicFooter_set_status v self =
     reactive_set DynamicFooter_status DynamicFooter.status
       (\<lambda>x obj. obj\<lparr>DynamicFooter.status := Some x\<rparr>)
       (Some DynamicFooter_watch_status)
       (\<lambda>obj. obj\<lparr>repaints := Suc (repaints obj)\<rparr>) v self"

text \<open>
  Mounting runs \<open>compose\<close>; when it returns, its widgets become the children and the
  reactive attribute is initialised if it was never accessed. The node counts as
  mounted afterwards, also when \<open>compose\<close> raised and left it without children.
\<close>

definition DynamicFooter_mount :: "DynamicFooter \<Rightarrow> DynamicFooter \<times> py_error option" where
  "DynamicFooter_mount self =
     (case DynamicFooter_compose self of
        (obj, Inl e) \<Rightarrow> (obj\<lparr>is_mounted := True\<rparr>, Some e)
      | (obj, Inr kids) \<Rightarrow>
          (case initialize_reactive DynamicFooter_status DynamicFooter.status
                  (\<lambda>x obj. obj\<lparr>DynamicFooter.status := Some x\<rparr>)
                  (Some DynamicFooter_watch_status) (obj\<lparr>children := kids\<rparr>) of
             (obj', e) \<Rightarrow> (obj'\<lparr>is_mounted := True\<rparr>, e)))"

text \<open>
  A history of the component: it is mounted once, and the setter may be called at any
  time. A caller that catches the exception of a call goes on with the object as the
  call left it.
\<close>

datatype event = Mount | SetStatus string

fun DynamicFooter_step :: "DynamicFooter \<Rightarrow> event \<Rightarrow> DynamicFooter" where
  "DynamicFooter_step w Mount = (if is_mounted w then w else fst (DynamicFooter_mount w))"
| "DynamicFooter_step w (SetStatus s) = fst (DynamicFooter_set_status s w)"

definition DynamicFooter_run :: "event list \<Rightarrow> DynamicFooter" where
  "DynamicFooter_run evs = foldl DynamicFooter_step DynamicFooter_new evs"

definition DynamicFooter_text :: "DynamicFooter \<Rightarrow> string option" where
  "DynamicFooter_text w = text_of ''#status'' (children w)"


subsection \<open>\<open>EnhancedFooter\<close>\<close>

record EnhancedFooter = widget_node +
  status_text :: string

definition EnhancedFooter_DEFAULT_CSS :: "css_rule list" where
  "EnhancedFooter_DEFAULT_CSS =
     [(''EnhancedFooter'',
         [(''dock'', ''bottom''), (''height'', ''3''), (''overflow-x'', ''hidden''),
          (''layout'', ''horizontal'')]),
      (''EnhancedFooter Footer'',
         [(''width'', ''1fr''), (''overflow-x'', ''hidden'')]),
      (''.status-section'',
         [(''width'', ''auto''), (''max-width'', ''25%''), (''text-overflow'', ''ellipsis''),
          (''overflow'', ''hidden''), (''text-align'', ''right''), (''margin-left'', ''1'')])]"

text \<open>\<open>__init__(self, status_text="Ready")\<close>: \<open>None\<close> stands for the omitted argument.\<close>

definition EnhancedFooter_new :: "string option \<Rightarrow> EnhancedFooter" where
  "EnhancedFooter_new arg =
     \<lparr>children = [], repaints = 0, is_mounted = False,
      status_text = (case arg of None \<Rightarrow> ''Ready'' | Some t \<Rightarrow> t)\<rparr>"

definition EnhancedFooter_compose :: "EnhancedFooter \<Rightarrow> py_error + widget list" where
  "EnhancedFooter_compose self =
     (case Label_new (status_text self) None [''status-section''] of
        Inl e \<Rightarrow> Inl e
      | Inr label \<Rightarrow> Inr [Footer_new None, label])"

definition EnhancedFooter_mount :: "EnhancedFooter \<Rightarrow> EnhancedFooter \<times> py_error option" where
  "EnhancedFooter_mount self =
     (case check_stylesheet EnhancedFooter_DEFAULT_CSS of
        Some e \<Rightarrow> (self, Some e)
      | None \<Rightarrow>
          (case EnhancedFooter_compose self of
             Inl e \<Rightarrow> (self\<lparr>is_mounted := True\<rparr>, Some e)
           | Inr kids \<Rightarrow>
               (self\<lparr>children := kids, is_mounted := True\<rparr>, None)))"

definition EnhancedFooter_text :: "EnhancedFooter \<Rightarrow> string option" where
  "EnhancedFooter_text w = text_of ''.status-section'' (children w)"

subsection \<open>\<open>NoScrollFooterApp\<close>\<close>

record NoScrollFooterApp = dom_node +
  status :: "string option"

definition NoScrollFooterApp_CSS :: "css_rule list" where
  "NoScrollFooterApp_CSS =
     [(''#main-footer'',
         [(''dock'', ''bottom''), (''height'', ''3''), (''overflow-x'', ''hidden''),
          (''overflow-y'', ''hidden''), (''layout'', ''grid''), (''grid-columns'', ''2fr 1fr'')]),
      (''#footer-keys'',
         [(''overflow-x'', ''hidden''), (''min-width'', ''0'')]),
      (''#footer-status'',
         [(''text-align'', ''right''), (''text-overflow'', ''ellipsis''),
          (''overflow'', ''hidden''), (''white-space'', ''nowrap''), (''padding-right'', ''1'')])]"

text \<open>\<open>status = reactive("Ready")\<close>; the class defines no \<open>watch_status\<close>.\<close>

definition NoScrollFooterApp_status :: "string reactive" where
  "NoScrollFooterApp_status = reactive ''Ready''"

definition NoScrollFooterApp_watch_status ::
  "(string \<Rightarrow> NoScrollFooterApp \<Rightarrow> NoScrollFooterApp \<times> py_error option) option" where
  "NoScrollFooterApp_watch_status = None"

definition NoScrollFooterApp_new :: NoScrollFooterApp where
  "NoScrollFooterApp_new = \<lparr>children = [], repaints = 0, NoScrollFooterApp.status = None\<rparr>"

definition NoScrollFooterApp_compose ::
  "NoScrollFooterApp \<Rightarrow> NoScrollFooterApp \<times> (py_error + widget list)" where
  "NoScrollFooterApp_compose self =
     (case reactive_get NoScrollFooterApp_status NoScrollFooterApp.status
             (\<lambda>x obj. obj\<lparr>NoScrollFooterApp.status := Some x\<rparr>)
             NoScrollFooterApp_watch_status self of
        (obj, Inl e) \<Rightarrow> (obj, Inl e)
      | (obj, Inr st) \<Rightarrow>
          (case Label_new st (Some ''footer-status'') [] of
             Inl e \<Rightarrow> (obj, Inl e)
           | Inr label \<Rightarrow>
               (obj, Inr [Header_new,
                          Horizontal_new (Some ''main-footer'')
                            [Footer_new (Some ''footer-keys''), label]])))"

definition NoScrollFooterApp_set_status ::
  "string \<Rightarrow> NoScrollFooterApp \<Rightarrow> NoScrollFooterApp \<times> py_error option" where
  "NoScrollFooterApp_set_status v self =
     reactive_set NoScrollFooterApp_status NoScrollFooterApp.status
       (\<lambda>x obj. obj\<lparr>NoScrollFooterApp.status := Some x\<rparr>)
       NoScrollFooterApp_watch_status
       (\<lambda>obj. obj\<lparr>repaints := Suc (repaints obj)\<rparr>) v self"

definition NoScrollFooterApp_on_mount ::
  "NoScrollFooterApp \<Rightarrow> NoScrollFooterApp \<times> py_error option" where
  "NoScrollFooterApp_on_mount self =
     NoScrollFooterApp_set_status ''Application loaded successfully'' self"

text \<open>\<open>app.run()\<close>: the stylesheet is read first; then \<open>compose\<close>, the \<open>on_mount\<close>
  handler and the initialisation of the reactive attribute.\<close>

definition NoScrollFooterApp_run ::
  "NoScrollFooterApp \<Rightarrow> NoScrollFooterApp \<times> py_error option" where
  "NoScrollFooterApp_run self =
     (case check_stylesheet NoScrollFooterApp_CSS of
        Some e \<Rightarrow> (self, Some e)
      | None \<Rightarrow>
          (case NoScrollFooterApp_compose self of
             (obj, Inl e) \<Rightarrow> (obj, Some e)
           | (obj, Inr kids) \<Rightarrow>
               (case NoScrollFooterApp_on_mount (obj\<lparr>children := kids\<rparr>) of
                  (obj', Some e) \<Rightarrow> (obj', Some e)
                | (obj', None) \<Rightarrow>
                    initialize_reactive NoScrollFooterApp_status NoScrollFooterApp.status
                      (\<lambda>x obj. obj\<lparr>NoScrollFooterApp.status := Some x\<rparr>)
                      NoScrollFooterApp_watch_status obj')))"

definition NoScrollFooterApp_text :: "NoScrollFooterApp \<Rightarrow> string option" where
  "NoScrollFooterApp_text w = text_of ''#footer-status'' (children w)"

subsection \<open>The states a \<open>DynamicFooter\<close> can be in\<close>

text \<open>
  Either the component has no children (it is not mounted, or its mount failed after
  the attribute was initialised), or it is mounted, the attribute holds a value and
  the children are the footer and the status label; then the label shows the stored
  value whenever that value contains no bracket.
\<close>

inductive DynamicFooter_shape :: "DynamicFooter \<Rightarrow> bool" where
  no_label:
    "children w = [] \<Longrightarrow> (is_mounted w \<longrightarrow> DynamicFooter.status w \<noteq> None)
     \<Longrightarrow> DynamicFooter_shape w"
| with_label:
    "is_mounted w \<Longrightarrow> DynamicFooter.status w = Some v
     \<Longrightarrow> children w = [Footer_new None, Widget Label (Some ''status'') [] t n []]
     \<Longrightarrow> (CHR ''['' \<notin> set v \<longrightarrow> t = v)
     \<Longrightarrow> DynamicFooter_shape w"

section \<open>Properties\<close>

subsection \<open>Loading the module\<close>

lemma load_footer_eq:
  "load_footer nm =
     ([''__name__'', ''str'', ''App'', ''ComposeResult'', ''Footer'', ''Label'', ''Header'',
       ''Horizontal'', ''reactive'', ''ContainerFooterApp''],
      Some (NameError ''Container''))"
  by (simp add: load_footer_def footer_module_def builtins_def)

text \<open>
  Claim C9. Whatever name the module is run under, its top level stops with
  \<open>NameError\<close> for \<open>Container\<close>: the name is read as the base of \<open>DynamicFooter\<close>
  and only \<open>Horizontal\<close> was imported from \<open>textual.containers\<close>. At that point
  none of \<open>DynamicFooter\<close>, \<open>EnhancedFooter\<close> and \<open>NoScrollFooterApp\<close> is bound, so
  no component can be constructed.
\<close>

theorem module_load_raises_NameError:
  "snd (load_footer nm) = Some (NameError ''Container'')
   \<and> ''Container'' \<notin> set (fst (load_footer nm))
   \<and> ''DynamicFooter'' \<notin> set (fst (load_footer nm))
   \<and> ''EnhancedFooter'' \<notin> set (fst (load_footer nm))
   \<and> ''NoScrollFooterApp'' \<notin> set (fst (load_footer nm))"
  by (simp add: load_footer_eq)

subsection \<open>Markup, queries and the methods of \<open>DynamicFooter\<close>\<close>

lemma scan_plain:
  "CHR ''['' \<notin> set s \<Longrightarrow> scan_markup opened None s = Inr s"
  by (induction s) auto

lemma render_plain: "CHR ''['' \<notin> set s \<Longrightarrow> render_markup s = Inr s"
  by (simp add: render_markup_def scan_plain)

lemma query_status_label:
  "query_one [Footer_new None, Widget Label (Some ''status'') [] t n []] ''#status'' Label
     = Inr ([1], Widget Label (Some ''status'') [] t n [])"
  by (simp add: query_one_def Footer_new_def)

lemma query_status_none: "query_one [] ''#status'' Label = Inl NoMatches"
  by (simp add: query_one_def)


lemma text_status_none: "text_of ''#status'' [] = None"
  by (simp add: text_of_def query_status_none)

lemma watch_status_none:
  "children w = [] \<Longrightarrow> DynamicFooter_watch_status s w = (w, Some NoMatches)"
  by (simp add: DynamicFooter_watch_status_def query_status_none)

lemma watch_status_label:
  "children w = [Footer_new None, Widget Label (Some ''status'') [] t n []] \<Longrightarrow>
   DynamicFooter_watch_status s w =
     (case render_markup s of
        Inl e \<Rightarrow> (w, Some e)
      | Inr shown \<Rightarrow>
          (w\<lparr>children := [Footer_new None, Widget Label (Some ''status'') [] shown (Suc n) []]\<rparr>,
           None))"
  by (simp add: DynamicFooter_watch_status_def query_status_label Label_update_def
      split: sum.splits)

lemma set_status_fresh:
  "DynamicFooter.status w = None \<Longrightarrow> children w = [] \<Longrightarrow>
   DynamicFooter_set_status s w = (w\<lparr>DynamicFooter.status := Some ''Ready''\<rparr>, Some NoMatches)"
  by (simp add: DynamicFooter_set_status_def reactive_set_def initialize_reactive_def
      DynamicFooter_status_def reactive_def watch_status_none)

lemma set_status_same:
  "DynamicFooter.status w = Some s \<Longrightarrow> DynamicFooter_set_status s w = (w, None)"
  by (simp add: DynamicFooter_set_status_def reactive_set_def initialize_reactive_def
      DynamicFooter_status_def reactive_def)

lemma set_status_changed:
  "DynamicFooter.status w = Some v \<Longrightarrow> s \<noteq> v \<Longrightarrow>
   DynamicFooter_set_status s w =
     (case DynamicFooter_watch_status s (w\<lparr>DynamicFooter.status := Some s\<rparr>) of
        (obj, Some e) \<Rightarrow> (obj, Some e)
      | (obj, None) \<Rightarrow> (obj\<lparr>repaints := Suc (repaints obj)\<rparr>, None))"
  by (simp add: DynamicFooter_set_status_def reactive_set_def initialize_reactive_def
      DynamicFooter_status_def reactive_def)

lemma compose_fresh:
  "DynamicFooter.status w = None \<Longrightarrow> children w = [] \<Longrightarrow>
   DynamicFooter_compose w = (w\<lparr>DynamicFooter.status := Some ''Ready''\<rparr>, Inl NoMatches)"
  by (simp add: DynamicFooter_compose_def reactive_get_def initialize_reactive_def
      DynamicFooter_status_def reactive_def watch_status_none)

lemma compose_initialised:
  "DynamicFooter.status w = Some v \<Longrightarrow>
   DynamicFooter_compose w =
     (w, case render_markup v of
           Inl e \<Rightarrow> Inl e
         | Inr shown \<Rightarrow> Inr [Footer_new None, Widget Label (Some ''status'') [] shown 0 []])"
  by (simp add: DynamicFooter_compose_def reactive_get_def initialize_reactive_def
      Label_new_def split: sum.splits)

lemma mount_fresh:
  "DynamicFooter.status w = None \<Longrightarrow> children w = [] \<Longrightarrow>
   DynamicFooter_mount w =
     (w\<lparr>DynamicFooter.status := Some ''Ready'', is_mounted := True\<rparr>, Some NoMatches)"
  by (simp add: DynamicFooter_mount_def compose_fresh)

lemma mount_initialised:
  "DynamicFooter.status w = Some v \<Longrightarrow>
   DynamicFooter_mount w =
     (case render_markup v of
        Inl e \<Rightarrow> (w\<lparr>is_mounted := True\<rparr>, Some e)
      | Inr shown \<Rightarrow>
          (w\<lparr>children := [Footer_new None, Widget Label (Some ''status'') [] shown 0 []],
             is_mounted := True\<rparr>, None))"
  by (simp add: DynamicFooter_mount_def compose_initialised initialize_reactive_def
      split: sum.splits)

lemma shape_new: "DynamicFooter_shape DynamicFooter_new"
  by (rule no_label) (simp_all add: DynamicFooter_new_def)

lemma shape_mount:
  assumes "DynamicFooter_shape w" "\<not> is_mounted w"
  shows "DynamicFooter_shape (fst (DynamicFooter_mount w))"
  using assms
proof (cases rule: DynamicFooter_shape.cases)
  case no_label
  show ?thesis
  proof (cases "DynamicFooter.status w")
    case None
    with no_label show ?thesis
      by (simp add: mount_fresh DynamicFooter_shape.no_label)
  next
    case (Some v)
    show ?thesis
    proof (cases "render_markup v")
      case (Inl e)
      with Some no_label show ?thesis
        by (simp add: mount_initialised DynamicFooter_shape.no_label)
    next
      case (Inr shown)
      have "CHR ''['' \<notin> set v \<longrightarrow> shown = v"
        using Inr by (auto simp: render_plain)
      with Some Inr show ?thesis
        by (auto simp: mount_initialised intro: DynamicFooter_shape.with_label)
    qed
  qed
next
  case with_label
  with assms(2) show ?thesis by simp
qed

lemma shape_set_status:
  assumes "DynamicFooter_shape w"
  shows "DynamicFooter_shape (fst (DynamicFooter_set_status s w))"
  using assms
proof (cases rule: DynamicFooter_shape.cases)
  case no_label
  show ?thesis
  proof (cases "DynamicFooter.status w")
    case None
    with no_label show ?thesis
      by (auto simp: set_status_fresh intro: DynamicFooter_shape.no_label)
  next
    case (Some v)
    show ?thesis
    proof (cases "s = v")
      case True
      with Some assms show ?thesis by (simp add: set_status_same)
    next
      case False
      have "children (w\<lparr>DynamicFooter.status := Some s\<rparr>) = []"
        using no_label by simp
      from watch_status_none [OF this] Some False no_label show ?thesis
        by (auto simp: set_status_changed intro: DynamicFooter_shape.no_label)
    qed
  qed
next
  case (with_label v t n)
  show ?thesis
  proof (cases "s = v")
    case True
    with with_label assms show ?thesis by (simp add: set_status_same)
  next
    case False
    have kids: "children (w\<lparr>DynamicFooter.status := Some s\<rparr>)
                  = [Footer_new None, Widget Label (Some ''status'') [] t n []]"
      using with_label by simp
    show ?thesis
    proof (cases "render_markup s")
      case (Inl e)
      have "DynamicFooter_shape (w\<lparr>DynamicFooter.status := Some s\<rparr>)"
      proof (rule DynamicFooter_shape.with_label)
        show "is_mounted (w\<lparr>DynamicFooter.status := Some s\<rparr>)" using with_label by simp
        show "DynamicFooter.status (w\<lparr>DynamicFooter.status := Some s\<rparr>) = Some s" by simp
        show "children (w\<lparr>DynamicFooter.status := Some s\<rparr>)
                = [Footer_new None, Widget Label (Some ''status'') [] t n []]" by (rule kids)
        show "CHR ''['' \<notin> set s \<longrightarrow> t = s" using Inl by (auto simp: render_plain)
      qed
      with Inl with_label False show ?thesis
        by (simp add: set_status_changed watch_status_label [OF kids])
    next
      case (Inr shown)
      let ?w' = "w\<lparr>DynamicFooter.status := Some s,
                   children := [Footer_new None, Widget Label (Some ''status'') [] shown (Suc n) []],
                   repaints := Suc (repaints w)\<rparr>"
      have "DynamicFooter_shape ?w'"
      proof (rule DynamicFooter_shape.with_label)
        show "is_mounted ?w'" using with_label by simp
        show "DynamicFooter.status ?w' = Some s" by simp
        show "children ?w' = [Footer_new None, Widget Label (Some ''status'') [] shown (Suc n) []]"
          by simp
        show "CHR ''['' \<notin> set s \<longrightarrow> shown = s" using Inr by (auto simp: render_plain)
      qed
      with Inr with_label False show ?thesis
        by (simp add: set_status_changed watch_status_label [OF kids])
    qed
  qed
qed

lemma shape_step: "DynamicFooter_shape w \<Longrightarrow> DynamicFooter_shape (DynamicFooter_step w ev)"
  by (cases ev) (simp_all add: shape_mount shape_set_status)

lemma shape_run: "DynamicFooter_shape (DynamicFooter_run evs)"
  unfolding DynamicFooter_run_def
  by (induction evs rule: rev_induct) (simp_all add: shape_new shape_step)













lemma unmounted_no_children:
  assumes "DynamicFooter_shape w" "\<not> is_mounted w"
  shows "children w = []"
  using assms by (cases rule: DynamicFooter_shape.cases) simp_all

lemma text_no_children: "children w = [] \<Longrightarrow> DynamicFooter_text w = None"
  by (simp add: DynamicFooter_text_def text_status_none)

lemma no_children_set_status:
  assumes "children w = []"
  shows "DynamicFooter_set_status s w =
     (case DynamicFooter.status w of
        None \<Rightarrow> (w\<lparr>DynamicFooter.status := Some ''Ready''\<rparr>, Some NoMatches)
      | Some v \<Rightarrow>
          if s = v then (w, None) else (w\<lparr>DynamicFooter.status := Some s\<rparr>, Some NoMatches))"
proof (cases "DynamicFooter.status w")
  case None
  with assms show ?thesis by (simp add: set_status_fresh)
next
  case (Some v)
  have "children (w\<lparr>DynamicFooter.status := Some s\<rparr>) = []" using assms by simp
  from watch_status_none [OF this] Some show ?thesis
    by (simp add: set_status_same set_status_changed)
qed


lemma render_Ready: "render_markup ''Ready'' = Inr ''Ready''"
  by (simp add: render_plain)

lemma run_Mount:
  "DynamicFooter_run [Mount] =
     \<lparr>children = [], repaints = 0, is_mounted = True, DynamicFooter.status = Some ''Ready''\<rparr>"
  by (simp add: DynamicFooter_run_def DynamicFooter_new_def mount_fresh)

subsection \<open>Mounting\<close>

text \<open>
  Claim C7, evaluated. On a fresh \<open>DynamicFooter\<close>, \<open>compose\<close> reads \<open>self.status\<close>
  for the first time, the watcher runs before any child exists, and \<open>compose\<close> raises
  \<open>NoMatches\<close>: after the mount the component counts as mounted and has no label.
  An \<open>EnhancedFooter\<close> built without argument mounts and its label shows the default
  \<open>Ready\<close> of the constructor.
\<close>

theorem fresh_mount_has_no_label:
  "DynamicFooter_compose DynamicFooter_new
     = (DynamicFooter_new\<lparr>DynamicFooter.status := Some ''Ready''\<rparr>, Inl NoMatches)
   \<and> snd (DynamicFooter_mount DynamicFooter_new) = Some NoMatches
   \<and> is_mounted (fst (DynamicFooter_mount DynamicFooter_new))
   \<and> children (fst (DynamicFooter_mount DynamicFooter_new)) = []
   \<and> DynamicFooter_text (fst (DynamicFooter_mount DynamicFooter_new)) = None
   \<and> snd (EnhancedFooter_mount (EnhancedFooter_new None)) = None
   \<and> is_mounted (fst (EnhancedFooter_mount (EnhancedFooter_new None)))
   \<and> EnhancedFooter_text (fst (EnhancedFooter_mount (EnhancedFooter_new None))) = Some ''Ready''"
proof -
  have fresh: "DynamicFooter.status DynamicFooter_new = None" "children DynamicFooter_new = []"
    by (simp_all add: DynamicFooter_new_def)
  have css: "check_stylesheet EnhancedFooter_DEFAULT_CSS = None"
    by (simp add: check_stylesheet_def EnhancedFooter_DEFAULT_CSS_def css_properties_def)
  have enhanced: "EnhancedFooter_mount (EnhancedFooter_new None) =
      (\<lparr>children = [Footer_new None, Widget Label None [''status-section''] ''Ready'' 0 []],
       repaints = 0,
        is_mounted = True, status_text = ''Ready''\<rparr>, None)"
    by (simp add: EnhancedFooter_mount_def css EnhancedFooter_compose_def EnhancedFooter_new_def
        Label_new_def render_Ready)
  have shown: "text_of ''.status-section''
                 [Footer_new None, Widget Label None [''status-section''] ''Ready'' 0 []]
               = Some ''Ready''"
    by (simp add: text_of_def query_one_def Footer_new_def)
  have dyn: "DynamicFooter_text (fst (DynamicFooter_mount DynamicFooter_new)) = None"
    by (rule text_no_children) (simp add: mount_fresh [OF fresh] fresh)
  from dyn shown show ?thesis
    by (simp add: compose_fresh [OF fresh] mount_fresh [OF fresh] fresh enhanced
        EnhancedFooter_text_def)
qed

text \<open>
  Claim C2, evaluated. On a fresh \<open>DynamicFooter\<close> the mount raises \<open>NoMatches\<close> and
  leaves no label; \<open>self.status = "Application loaded successfully"\<close> raises
  \<open>NoMatches\<close> again and there is still no label. Running a fresh
  \<open>NoScrollFooterApp\<close> stops at its stylesheet, before \<open>compose\<close> and \<open>on_mount\<close>.
\<close>

theorem scenario_shows_no_text:
  "snd (DynamicFooter_mount DynamicFooter_new) = Some NoMatches
   \<and> DynamicFooter_text (DynamicFooter_run [Mount]) = None
   \<and> snd (DynamicFooter_set_status ''Application loaded successfully'' (DynamicFooter_run [Mount]))
       = Some NoMatches
   \<and> DynamicFooter_text (DynamicFooter_run [Mount, SetStatus ''Application loaded successfully''])
       = None
   \<and> NoScrollFooterApp_run NoScrollFooterApp_new
       = (NoScrollFooterApp_new, Some StylesheetParseError)"
proof -
  have fresh: "DynamicFooter.status DynamicFooter_new = None" "children DynamicFooter_new = []"
    by (simp_all add: DynamicFooter_new_def)
  have kids: "children (DynamicFooter_run [Mount]) = []"
    by (simp add: run_Mount)
  have st: "DynamicFooter.status (DynamicFooter_run [Mount]) = Some ''Ready''"
    by (simp add: run_Mount)
  have call: "DynamicFooter_set_status ''Application loaded successfully'' (DynamicFooter_run [Mount])
      = (DynamicFooter_run [Mount]
           \<lparr>DynamicFooter.status := Some ''Application loaded successfully''\<rparr>, Some NoMatches)"
    by (simp add: no_children_set_status [OF kids] st)
  have "DynamicFooter_run [Mount, SetStatus ''Application loaded successfully'']
      = fst (DynamicFooter_set_status ''Application loaded successfully'' (DynamicFooter_run [Mount]))"
    by (simp add: DynamicFooter_run_def)
  then have "children (DynamicFooter_run [Mount, SetStatus ''Application loaded successfully'']) = []"
    by (simp add: call kids)
  then have after: "DynamicFooter_text
      (DynamicFooter_run [Mount, SetStatus ''Application loaded successfully'']) = None"
    by (rule text_no_children)
  have css: "check_stylesheet NoScrollFooterApp_CSS = Some StylesheetParseError"
    by (simp add: check_stylesheet_def NoScrollFooterApp_CSS_def css_properties_def)
  from after text_no_children [OF kids] show ?thesis
    by (simp add: mount_fresh [OF fresh] call NoScrollFooterApp_run_def css)
qed

subsection \<open>The setter while the status label exists\<close>














subsection \<open>Refreshes\<close>




subsection \<open>The setter before mount\<close>

text \<open>
  Against claim C3 as stated: on the freshly constructed component,
  \<open>self.status = "Loading"\<close> raises \<open>NoMatches\<close>; the watcher calls \<open>query_one\<close>
  without a guard and there is no label yet.
\<close>

theorem set_status_unmounted_raises:
  "\<not> is_mounted DynamicFooter_new
   \<and> snd (DynamicFooter_set_status ''Loading'' DynamicFooter_new) = Some NoMatches"
  by (simp add: DynamicFooter_new_def set_status_fresh)

text \<open>
  Claim C3, amended. Before mount, \<open>self.status = s\<close> leaves the display as it was (no
  children, no label text) but is silent only when \<open>s\<close> equals a value already
  stored; otherwise it raises \<open>NoMatches\<close>. On a component whose status was never
  accessed the call stores the default \<open>Ready\<close>, not \<open>s\<close>; afterwards a call stores
  \<open>s\<close>.
\<close>

theorem set_status_unmounted:
  assumes "\<not> is_mounted (DynamicFooter_run evs)"
  shows "children (fst (DynamicFooter_set_status s (DynamicFooter_run evs)))
           = children (DynamicFooter_run evs)
       \<and> DynamicFooter_text (fst (DynamicFooter_set_status s (DynamicFooter_run evs))) = None
       \<and> snd (DynamicFooter_set_status s (DynamicFooter_run evs))
           = (if DynamicFooter.status (DynamicFooter_run evs) = Some s then None
              else Some NoMatches)
       \<and> DynamicFooter.status (fst (DynamicFooter_set_status s (DynamicFooter_run evs)))
           = (case DynamicFooter.status (DynamicFooter_run evs) of
                None \<Rightarrow> Some ''Ready''
              | Some v \<Rightarrow> Some s)"
proof -
  let ?w = "DynamicFooter_run evs"
  have kids: "children ?w = []"
    by (rule unmounted_no_children [OF shape_run assms])
  note res = no_children_set_status [OF kids, of s]
  have same: "children (fst (DynamicFooter_set_status s ?w)) = children ?w"
    by (simp add: res split: option.splits)
  then have "DynamicFooter_text (fst (DynamicFooter_set_status s ?w)) = None"
    using kids by (simp add: text_no_children)
  with same show ?thesis
    by (simp add: res split: option.splits)
qed

theorem set_status_unmounted_witness:
  "\<not> is_mounted (DynamicFooter_run [])
   \<and> DynamicFooter.status (DynamicFooter_run []) = None
   \<and> snd (DynamicFooter_set_status ''Ready'' (DynamicFooter_run [])) = Some NoMatches
   \<and> snd (DynamicFooter_set_status ''Loading'' (DynamicFooter_run [])) = Some NoMatches
   \<and> DynamicFooter.status (fst (DynamicFooter_set_status ''Loading'' (DynamicFooter_run [])))
       = Some ''Ready''
   \<and> DynamicFooter_text (fst (DynamicFooter_set_status ''Loading'' (DynamicFooter_run []))) = None
   \<and> children (fst (DynamicFooter_set_status ''Loading'' (DynamicFooter_run []))) = []
   \<and> \<not> is_mounted (DynamicFooter_run [SetStatus ''Loading''])
   \<and> snd (DynamicFooter_set_status ''Loading'' (DynamicFooter_run [SetStatus ''Loading'']))
       = Some NoMatches
   \<and> DynamicFooter.status
        (fst (DynamicFooter_set_status ''Loading'' (DynamicFooter_run [SetStatus ''Loading''])))
       = Some ''Loading''
   \<and> snd (DynamicFooter_set_status ''Ready'' (DynamicFooter_run [SetStatus ''Loading''])) = None"
proof -
  have new: "DynamicFooter_run [] =
      \<lparr>children = [], repaints = 0, is_mounted = False, DynamicFooter.status = None\<rparr>"
    by (simp add: DynamicFooter_run_def DynamicFooter_new_def)
  then have m: "\<not> is_mounted (DynamicFooter_run [])" by simp
  have touched: "DynamicFooter_run [SetStatus ''Loading''] =
      \<lparr>children = [], repaints = 0, is_mounted = False, DynamicFooter.status = Some ''Ready''\<rparr>"
    by (simp add: DynamicFooter_run_def DynamicFooter_new_def set_status_fresh)
  then have m': "\<not> is_mounted (DynamicFooter_run [SetStatus ''Loading''])" by simp
  from set_status_unmounted [OF m, of "''Loading''"] set_status_unmounted [OF m, of "''Ready''"]
    set_status_unmounted [OF m', of "''Loading''"] set_status_unmounted [OF m', of "''Ready''"]
    m m'
  show ?thesis by (simp add: new touched)
qed

subsection \<open>\<open>NoScrollFooterApp\<close>\<close>

lemma app_set_status_eq:
  "NoScrollFooterApp_set_status v app =
     (if NoScrollFooterApp.status app = Some v then app
      else if NoScrollFooterApp.status app = None \<and> v = ''Ready''
           then app\<lparr>NoScrollFooterApp.status := Some ''Ready''\<rparr>
      else app\<lparr>NoScrollFooterApp.status := Some v, repaints := Suc (repaints app)\<rparr>, None)"
  by (simp add: NoScrollFooterApp_set_status_def reactive_set_def initialize_reactive_def
      NoScrollFooterApp_status_def reactive_def NoScrollFooterApp_watch_status_def
      split: option.splits)

lemma app_compose_new:
  "NoScrollFooterApp_compose NoScrollFooterApp_new =
     (NoScrollFooterApp_new\<lparr>NoScrollFooterApp.status := Some ''Ready''\<rparr>,
      Inr [Header_new,
           Horizontal_new (Some ''main-footer'')
             [Footer_new (Some ''footer-keys''),
              Widget Label (Some ''footer-status'') [] ''Ready'' 0 []]])"
  by (simp add: NoScrollFooterApp_compose_def reactive_get_def initialize_reactive_def
      NoScrollFooterApp_status_def reactive_def NoScrollFooterApp_watch_status_def
      NoScrollFooterApp_new_def Label_new_def render_Ready)

lemma app_text_composed:
  "text_of ''#footer-status''
     [Header_new,
      Horizontal_new (Some ''main-footer'')
        [Footer_new (Some ''footer-keys''),
         Widget Label (Some ''footer-status'') [] t n []]] = Some t"
  by (simp add: text_of_def query_one_def Header_new_def Horizontal_new_def Footer_new_def)

text \<open>
  Claim C10. \<open>NoScrollFooterApp\<close> has no \<open>watch_status\<close>: an assignment to
  \<open>status\<close>, and so the one \<open>on_mount\<close> makes, stores the value without an exception
  and leaves the children, hence the text of the label, as they were. \<open>compose\<close> on
  the fresh application builds the label from the default \<open>Ready\<close>, and after
  \<open>on_mount\<close> on the composed application the label still shows \<open>Ready\<close>.
\<close>

theorem app_label_never_updated:
  "snd (NoScrollFooterApp_set_status v app) = None
   \<and> NoScrollFooterApp.status (fst (NoScrollFooterApp_set_status v app)) = Some v
   \<and> children (fst (NoScrollFooterApp_set_status v app)) = children app
   \<and> NoScrollFooterApp_text (fst (NoScrollFooterApp_set_status v app)) = NoScrollFooterApp_text app
   \<and> snd (NoScrollFooterApp_on_mount app) = None
   \<and> NoScrollFooterApp.status (fst (NoScrollFooterApp_on_mount app))
       = Some ''Application loaded successfully''
   \<and> NoScrollFooterApp_text (fst (NoScrollFooterApp_on_mount app)) = NoScrollFooterApp_text app
   \<and> NoScrollFooterApp_compose NoScrollFooterApp_new
       = (NoScrollFooterApp_new\<lparr>NoScrollFooterApp.status := Some ''Ready''\<rparr>,
          Inr [Header_new,
               Horizontal_new (Some ''main-footer'')
                 [Footer_new (Some ''footer-keys''),
                  Widget Label (Some ''footer-status'') [] ''Ready'' 0 []]])
   \<and> NoScrollFooterApp_text
        (fst (NoScrollFooterApp_on_mount
           (NoScrollFooterApp_new
              \<lparr>NoScrollFooterApp.status := Some ''Ready'',
               children :=
                 [Header_new,
                  Horizontal_new (Some ''main-footer'')
                    [Footer_new (Some ''footer-keys''),
                     Widget Label (Some ''footer-status'') [] ''Ready'' 0 []]]\<rparr>)))
       = Some ''Ready''"
proof -
  have setter: "snd (NoScrollFooterApp_set_status u a) = None
      \<and> NoScrollFooterApp.status (fst (NoScrollFooterApp_set_status u a)) = Some u
      \<and> children (fst (NoScrollFooterApp_set_status u a)) = children a" for u a
    by (simp add: app_set_status_eq)
  then have shown: "NoScrollFooterApp_text (fst (NoScrollFooterApp_set_status u a))
      = NoScrollFooterApp_text a" for u a
    by (simp add: NoScrollFooterApp_text_def)
  have composed: "NoScrollFooterApp_text
        (NoScrollFooterApp_new
              \<lparr>NoScrollFooterApp.status := Some ''Ready'',
               children :=
                 [Header_new,
                  Horizontal_new (Some ''main-footer'')
                    [Footer_new (Some ''footer-keys''),
                     Widget Label (Some ''footer-status'') [] ''Ready'' 0 []]]\<rparr>) = Some ''Ready''"
    by (simp add: NoScrollFooterApp_text_def app_text_composed)
  from setter shown composed show ?thesis
    by (simp add: NoScrollFooterApp_on_mount_def app_compose_new)
qed

end
